theory Spec2Isabelle
  imports Main "HOL-Library.AList"
begin

section \<open>The lifecycle (ILM) policy resource of the MinIO Terraform provider\<close>

text \<open>
  A shallow embedding of \<^verbatim>\<open>minio/resource_minio_ilm_policy.go\<close>: the two parsers
  \<^verbatim>\<open>parseILMExpiration\<close> and \<^verbatim>\<open>parseILMTransition\<close>, the validators of the schema,
  the loop bodies of \<^verbatim>\<open>minioCreateILMPolicy\<close> and \<^verbatim>\<open>minioReadILMPolicy\<close>, and the four
  resource operations, run against an arbitrary store client.

  Strings are Go strings: lists of bytes. A Go \<^verbatim>\<open>int\<close> is 64 bits wide (the build
  targets \<^verbatim>\<open>GOARCH=amd64\<close>); the program never does arithmetic on one, so it is an
  \<^typ>\<open>int\<close> here and the only place where the width shows, the range check of the
  scanner, is written out.
\<close>

subsection \<open>Go library: \<^verbatim>\<open>fmt.Sscanf(s, "%dd", &days)\<close> and \<^verbatim>\<open>fmt.Sprintf("%dd", n)\<close>\<close>

definition isDigit :: "char \<Rightarrow> bool" where
  "isDigit c = (48 \<le> (of_char c :: nat) \<and> (of_char c :: nat) \<le> 57)"

definition digit_value :: "char \<Rightarrow> nat" where
  "digit_value c = of_char c - 48"

definition decimal_value :: "string \<Rightarrow> nat" where
  "decimal_value ds = foldl (\<lambda>a c. 10 * a + digit_value c) 0 ds"

text \<open>
  The number of bytes of the rune at the head of the input when \<^verbatim>\<open>fmt\<close>'s \<^verbatim>\<open>isSpace\<close>
  holds of it, and 0 otherwise. The newline is left out: \<^verbatim>\<open>SkipSpace\<close> tests for it
  first. The runes are U+0009, U+000B to U+000D, U+0020, U+0085, U+00A0, U+1680, U+2000 to
  U+200A, U+2028, U+2029, U+202F, U+205F and U+3000, each in its UTF-8 encoding.
\<close>

definition space_width :: "string \<Rightarrow> nat" where
  "space_width s =
     (case (map of_char s :: nat list) of
        [] \<Rightarrow> 0
      | b0 # r0 \<Rightarrow>
          if b0 = 9 \<or> b0 = 11 \<or> b0 = 12 \<or> b0 = 13 \<or> b0 = 32 then 1
          else if b0 = 0xC2 then
            (case r0 of
               b1 # _ \<Rightarrow> if b1 = 0x85 \<or> b1 = 0xA0 then 2 else 0
             | [] \<Rightarrow> 0)
          else if b0 = 0xE1 then
            (case r0 of
               b1 # b2 # _ \<Rightarrow> if b1 = 0x9A \<and> b2 = 0x80 then 3 else 0
             | _ \<Rightarrow> 0)
          else if b0 = 0xE2 then
            (case r0 of
               b1 # b2 # _ \<Rightarrow>
                 if b1 = 0x80 \<and> (0x80 \<le> b2 \<and> b2 \<le> 0x8A \<or> b2 = 0xA8 \<or> b2 = 0xA9 \<or> b2 = 0xAF)
                    \<or> b1 = 0x81 \<and> b2 = 0x9F
                 then 3 else 0
             | _ \<Rightarrow> 0)
          else if b0 = 0xE3 then
            (case r0 of
               b1 # b2 # _ \<Rightarrow> if b1 = 0x80 \<and> b2 = 0x80 then 3 else 0
             | _ \<Rightarrow> 0)
          else 0)"

text \<open>
  \<^verbatim>\<open>(*ss).SkipSpace\<close> as \<^verbatim>\<open>Sscanf\<close> runs it (\<^verbatim>\<open>nlIsSpace\<close> is false): it stops at
  the end of the input or before the first rune that is no space, and a newline is the
  error "unexpected newline" (\<open>None\<close>).
\<close>

function SkipSpace :: "string \<Rightarrow> string option" where
  "SkipSpace s =
     (if s = [] then Some []
      else if hd s = CHR 0x0A then None
      else if 0 < space_width s then SkipSpace (drop (space_width s) s)
      else Some s)"
  by pat_completeness auto
termination
  by (relation "measure length") auto

declare SkipSpace.simps [simp del]

text \<open>
  \<^verbatim>\<open>strconv.ParseInt(tok, 10, 64)\<close> on a token that is an optional sign and at least
  one decimal digit: the value, or \<open>None\<close> for the range error outside
  \<open>-2^63 .. 2^63 - 1\<close>.
\<close>

definition ParseInt :: "string \<Rightarrow> string \<Rightarrow> int option" where
  "ParseInt sg ds =
     (let v = int (decimal_value ds) in
      if sg = ''-'' then (if 2 ^ 63 < v then None else Some (- v))
      else (if 2 ^ 63 \<le> v then None else Some v))"

text \<open>
  \<^verbatim>\<open>(*ss).scanInt\<close> for the verb \<^verbatim>\<open>%d\<close>: skip spaces, fail at the end of the input,
  accept one sign, then the longest run of decimal digits, which must not be empty
  ("expected integer"). The result is the integer and the input that is left.
\<close>

definition scanInt :: "string \<Rightarrow> (int \<times> string) option" where
  "scanInt s =
     (case SkipSpace s of
        None \<Rightarrow> None
      | Some s1 \<Rightarrow>
          (case s1 of
             [] \<Rightarrow> None
           | c # cs \<Rightarrow>
               let sg  = (if c = CHR ''+'' \<or> c = CHR ''-'' then [c] else []);
                   s2 = (if c = CHR ''+'' \<or> c = CHR ''-'' then cs else s1);
                   ds = takeWhile isDigit s2
               in if ds = [] then None
                  else (case ParseInt sg ds of
                          None \<Rightarrow> None
                        | Some i \<Rightarrow> Some (i, dropWhile isDigit s2))))"

text \<open>
  \<^verbatim>\<open>fmt.Sscanf(s, "%dd", &days)\<close>: the integer, then the literal \<^verbatim>\<open>d\<close> of the format
  must be the next byte of the input. The end of the input there is the error
  "unexpected EOF", another byte is "input does not match format". What follows the
  \<^verbatim>\<open>d\<close> in the input is never read: \<^verbatim>\<open>Sscanf\<close> does not ask for the input to end
  where the format ends. \<open>Some days\<close> stands for \<^verbatim>\<open>err == nil\<close>.
\<close>

definition Sscanf_dd :: "string \<Rightarrow> int option" where
  "Sscanf_dd s =
     (case scanInt s of
        None \<Rightarrow> None
      | Some (i, rest) \<Rightarrow>
          (case rest of
             [] \<Rightarrow> None
           | c # _ \<Rightarrow> if c = CHR ''d'' then Some i else None))"

text \<open>Decimal printing: the verb \<^verbatim>\<open>%d\<close> of \<^verbatim>\<open>fmt.Sprintf\<close>.\<close>

fun digits_of :: "nat \<Rightarrow> string" where
  "digits_of n =
     (if n < 10 then [char_of (48 + n)]
      else digits_of (n div 10) @ [char_of (48 + n mod 10)])"

declare digits_of.simps [simp del]

definition Sprintf_d :: "int \<Rightarrow> string" where
  "Sprintf_d i = (if i < 0 then CHR ''-'' # digits_of (nat (- i)) else digits_of (nat i))"

definition Sprintf_dd :: "int \<Rightarrow> string" where
  "Sprintf_dd i = Sprintf_d i @ ''d''"

subsection \<open>Go library: \<^verbatim>\<open>time.Parse("2006-01-02", s)\<close> and \<^verbatim>\<open>Format("2006-01-02")\<close>\<close>

text \<open>
  A \<^verbatim>\<open>time.Time\<close> as this program meets it: a calendar date at midnight UTC, which is
  what \<^verbatim>\<open>time.Parse\<close> returns for this layout. The zero \<^verbatim>\<open>time.Time{}\<close> is
  January 1 of year 1.
\<close>

record Time =
  year :: nat
  month :: nat
  day :: nat

definition Time_zero :: Time where
  "Time_zero = \<lparr>year = 1, month = 1, day = 1\<rparr>"

definition IsZero :: "Time \<Rightarrow> bool" where
  "IsZero t = (t = Time_zero)"

definition isLeap :: "nat \<Rightarrow> bool" where
  "isLeap y = (y mod 4 = 0 \<and> (0 < y mod 100 \<or> y mod 400 = 0))"

definition daysIn :: "nat \<Rightarrow> nat \<Rightarrow> nat" where
  "daysIn m y =
     (if m = 2 \<and> isLeap y then 29
      else [31, 28, 31, 30, 31, 30, 31, 31, 30, 31, 30, 31] ! (m - 1))"

text \<open>\<^verbatim>\<open>getnum(s, true)\<close>: exactly two decimal digits.\<close>

definition getnum :: "string \<Rightarrow> (nat \<times> string) option" where
  "getnum s =
     (case s of
        a # b # rest \<Rightarrow>
          if isDigit a \<and> isDigit b then Some (digit_value a * 10 + digit_value b, rest)
          else None
      | _ \<Rightarrow> None)"

text \<open>
  \<^verbatim>\<open>time.Parse("2006-01-02", s)\<close>: four digits of year, \<^verbatim>\<open>-\<close>, two digits of a month
  from 01 to 12, \<^verbatim>\<open>-\<close>, two digits of day, nothing after ("extra text"), and the day
  must exist in that month of that year ("day out of range").
\<close>

definition Parse_date :: "string \<Rightarrow> Time option" where
  "Parse_date s =
     (if length s < 4 then None
      else if list_all isDigit (take 4 s) then
        (let y = decimal_value (take 4 s) in
         case drop 4 s of
           [] \<Rightarrow> None
         | c1 # r1 \<Rightarrow>
             if c1 = CHR ''-'' then
               (case getnum r1 of
                  None \<Rightarrow> None
                | Some (m, r2) \<Rightarrow>
                    if m = 0 \<or> 12 < m then None
                    else
                      (case r2 of
                         [] \<Rightarrow> None
                       | c2 # r3 \<Rightarrow>
                           if c2 = CHR ''-'' then
                             (case getnum r3 of
                                None \<Rightarrow> None
                              | Some (dd, r4) \<Rightarrow>
                                  if r4 = [] then
                                    (if dd < 1 \<or> daysIn m y < dd then None
                                     else Some \<lparr>year = y, month = m, day = dd\<rparr>)
                                  else None)
                           else None))
             else None)
      else None)"

text \<open>\<^verbatim>\<open>appendInt(b, x, width)\<close>: decimal, padded with zeros on the left.\<close>

definition appendInt :: "nat \<Rightarrow> nat \<Rightarrow> string" where
  "appendInt x width = replicate (width - length (digits_of x)) (CHR ''0'') @ digits_of x"

definition Format_date :: "Time \<Rightarrow> string" where
  "Format_date t =
     appendInt (year t) 4 @ ''-'' @ appendInt (month t) 2 @ ''-'' @ appendInt (day t) 2"

subsection \<open>The \<^verbatim>\<open>lifecycle\<close> package of minio-go: the fields this program touches\<close>

record Expiration =
  ExpDate :: Time
  ExpDays :: int
  ExpDeleteMarker :: bool

text \<open>\<^verbatim>\<open>lifecycle.Expiration{}\<close>, the value every field of which is zero.\<close>

definition Expiration_zero :: Expiration where
  "Expiration_zero = \<lparr>ExpDate = Time_zero, ExpDays = 0, ExpDeleteMarker = False\<rparr>"

definition Expiration_IsNull :: "Expiration \<Rightarrow> bool" where
  "Expiration_IsNull e = (ExpDays e = 0 \<and> IsZero (ExpDate e) \<and> \<not> ExpDeleteMarker e)"

record Transition =
  TrDate :: Time
  TrStorageClass :: string
  TrDays :: int

definition Transition_zero :: Transition where
  "Transition_zero = \<lparr>TrDate = Time_zero, TrStorageClass = [], TrDays = 0\<rparr>"

definition Transition_IsDaysNull :: "Transition \<Rightarrow> bool" where
  "Transition_IsDaysNull t = (TrDays t = 0)"

definition Transition_IsDateNull :: "Transition \<Rightarrow> bool" where
  "Transition_IsDateNull t = IsZero (TrDate t)"

text \<open>
  \<^verbatim>\<open>Transition.IsNull\<close>: no storage class is set. (Older releases of minio-go test
  that the days and the date are both null instead; the zero transition is null either
  way.)
\<close>

definition Transition_IsNull :: "Transition \<Rightarrow> bool" where
  "Transition_IsNull t = (TrStorageClass t = [])"

record Tag =
  Key :: string
  Value :: string

record And_filter =
  AndPrefix :: string
  AndTags :: "Tag list"

record Filter =
  And :: And_filter
  Prefix :: string

definition Filter_zero :: Filter where
  "Filter_zero = \<lparr>And = \<lparr>AndPrefix = [], AndTags = []\<rparr>, Prefix = []\<rparr>"

record Rule =
  ID :: string
  RuleExpiration :: Expiration
  RuleTransition :: Transition
  NoncurrentVersionExpiration_NoncurrentDays :: int
  NoncurrentVersionTransition_NoncurrentDays :: int
  Status :: string
  RuleFilter :: Filter

record Configuration =
  Rules :: "Rule list"

text \<open>\<^verbatim>\<open>lifecycle.NewConfiguration()\<close>: no rules.\<close>

definition NewConfiguration :: Configuration where
  "NewConfiguration = \<lparr>Rules = []\<rparr>"

subsection \<open>Diagnostics\<close>

text \<open>
  Modelled from the spec: \<^verbatim>\<open>NewResourceError\<close> is declared in another file of the
  provider. The spec has it return a diagnostic that carries a human-readable message,
  the bucket name as context and the underlying cause; \<open>ResourceError\<close> keeps the three
  arguments of the call. \<open>Errorf\<close> is \<^verbatim>\<open>diag.Errorf\<close> with its message, and the empty
  list is the \<^verbatim>\<open>nil\<close> of \<^verbatim>\<open>diag.Diagnostics\<close>.
\<close>

datatype Diagnostic = Errorf string | ResourceError string string string

type_synonym Diagnostics = "Diagnostic list"

definition NewResourceError :: "string \<Rightarrow> string \<Rightarrow> string \<Rightarrow> Diagnostics" where
  "NewResourceError msg resource err = [ResourceError msg resource err]"

subsection \<open>The parsers and the validators\<close>

definition parseILMExpiration :: "string \<Rightarrow> Expiration" where
  "parseILMExpiration s =
     (if s = ''DeleteMarker'' then Expiration_zero\<lparr>ExpDeleteMarker := True\<rparr>
      else
        (case Sscanf_dd s of
           Some days \<Rightarrow> Expiration_zero\<lparr>ExpDays := days\<rparr>
         | None \<Rightarrow>
             (case Parse_date s of
                Some date \<Rightarrow> Expiration_zero\<lparr>ExpDate := date\<rparr>
              | None \<Rightarrow> Expiration_zero)))"

definition expiration_format_error :: string where
  \<open>expiration_format_error =
     ''expiration must be a duration (5d), date (1970-01-01), or "DeleteMarker"''\<close>

definition validateILMExpiration :: "string \<Rightarrow> Diagnostics" where
  "validateILMExpiration v =
     (let exp = parseILMExpiration v in
      if Expiration_zero = exp then [Errorf expiration_format_error] else [])"

definition validateILMNoncurrentVersionExpiration :: "int \<Rightarrow> Diagnostics" where
  "validateILMNoncurrentVersionExpiration v =
     (if v < 1 then [Errorf ''noncurrent_version_expiration_days must be strictly positive'']
      else [])"

definition validateILMNoncurrentVersionTransition :: "int \<Rightarrow> Diagnostics" where
  "validateILMNoncurrentVersionTransition v =
     (if v < 1 then [Errorf ''noncurrent_version_transition_days must be strictly positive'']
      else [])"

subsection \<open>The declarative side: what \<^verbatim>\<open>d.Get("rule")\<close> holds\<close>

text \<open>
  One element of the \<^verbatim>\<open>transition\<close> list and one element of the \<^verbatim>\<open>rule\<close> list. The
  SDK hands each one over as a map that has every key of the schema, an unset key with the
  zero value of its type, so each is a record with one field per key.

  A Go map from strings to strings (the \<^verbatim>\<open>tags\<close>) is an association list. The order of
  the list is the order in which \<^verbatim>\<open>range\<close> visits the entries, which Go leaves open;
  theorems hold for every order. An assignment \<^verbatim>\<open>m[k] = v\<close> is \<^const>\<open>AList.update\<close>.
\<close>

record transition_data =
  t_days :: string
  t_date :: string
  t_storage_class :: string

record rule_data =
  r_id :: string
  r_expiration :: string
  r_transition :: "transition_data list"
  r_noncurrent_version_expiration_days :: int
  r_noncurrent_version_transition_days :: int
  r_status :: string
  r_filter :: string
  r_tags :: "(string \<times> string) list"

text \<open>
  The schema's validation hooks: \<^verbatim>\<open>ValidateDiagFunc\<close> of each key of a rule, and of
  each key of a transition. A key with no hook is never validated.
\<close>

datatype ValidateDiagFunc =
  StringValidator "string \<Rightarrow> Diagnostics"
| IntValidator "int \<Rightarrow> Diagnostics"

definition rule_ValidateDiagFunc :: "string \<Rightarrow> ValidateDiagFunc option" where
  "rule_ValidateDiagFunc key =
     (if key = ''expiration'' then Some (StringValidator validateILMExpiration)
      else if key = ''noncurrent_version_expiration_days''
        then Some (IntValidator validateILMNoncurrentVersionExpiration)
      else if key = ''noncurrent_version_transition_days''
        then Some (IntValidator validateILMNoncurrentVersionTransition)
      else None)"

definition transition_ValidateDiagFunc :: "string \<Rightarrow> ValidateDiagFunc option" where
  "transition_ValidateDiagFunc key = None"

definition parseILMTransition :: "transition_data list \<Rightarrow> Transition" where
  "parseILMTransition transitions =
     (case transitions of
        [] \<Rightarrow> Transition_zero
      | t # _ \<Rightarrow>
          (case Sscanf_dd (t_days t) of
             Some days \<Rightarrow>
               Transition_zero\<lparr>TrDays := days, TrStorageClass := t_storage_class t\<rparr>
           | None \<Rightarrow>
               (case Parse_date (t_date t) of
                  Some date \<Rightarrow>
                    Transition_zero\<lparr>TrDate := date, TrStorageClass := t_storage_class t\<rparr>
                | None \<Rightarrow> Transition_zero)))"

subsection \<open>Building a store rule: the loop body of \<^verbatim>\<open>minioCreateILMPolicy\<close>\<close>

text \<open>Lines 144 to 147: the tags are copied into a fresh map, one assignment per entry.\<close>

definition copy_tags :: "(string \<times> string) list \<Rightarrow> (string \<times> string) list" where
  "copy_tags m = foldl (\<lambda>tags (k, v). AList.update k v tags) [] m"

text \<open>Lines 149 to 156: the filter, from the prefix and the copied tags.\<close>

definition build_filter :: "string \<Rightarrow> (string \<times> string) list \<Rightarrow> Filter" where
  "build_filter prefix tags =
     (if 0 < length tags
      then Filter_zero\<lparr>And := \<lparr>AndPrefix = prefix,
                                AndTags = map (\<lambda>(k, v). \<lparr>Key = k, Value = v\<rparr>) tags\<rparr>\<rparr>
      else Filter_zero\<lparr>Prefix := prefix\<rparr>)"

text \<open>Lines 138 to 166: the rule \<^verbatim>\<open>r\<close> that one pass of the loop appends.\<close>

definition build_rule :: "rule_data \<Rightarrow> Rule" where
  "build_rule rule =
     (let tags = copy_tags (r_tags rule) in
      \<lparr>ID = r_id rule,
       RuleExpiration = parseILMExpiration (r_expiration rule),
       RuleTransition = parseILMTransition (r_transition rule),
       NoncurrentVersionExpiration_NoncurrentDays = r_noncurrent_version_expiration_days rule,
       NoncurrentVersionTransition_NoncurrentDays = r_noncurrent_version_transition_days rule,
       Status = ''Enabled'',
       RuleFilter = build_filter (r_filter rule) tags\<rparr>)"

subsection \<open>Decoding a store rule: the loop body of \<^verbatim>\<open>minioReadILMPolicy\<close>\<close>

text \<open>Lines 197 to 205.\<close>

definition decode_expiration :: "Expiration \<Rightarrow> string" where
  "decode_expiration e =
     (if ExpDeleteMarker e then ''DeleteMarker''
      else if ExpDays e \<noteq> 0 then Sprintf_dd (ExpDays e)
      else if \<not> Expiration_IsNull e then Format_date (ExpDate e)
      else [])"

text \<open>
  Lines 207 to 219. A key that the source leaves out of the map is an empty string
  here, as it is once the SDK has stored the map.
\<close>

definition decode_transition :: "Transition \<Rightarrow> transition_data list" where
  "decode_transition t =
     (if \<not> Transition_IsNull t then
        [\<lparr>t_days = (if \<not> Transition_IsDaysNull t then Sprintf_dd (TrDays t) else []),
          t_date = (if \<not> Transition_IsDaysNull t then []
                    else if \<not> Transition_IsDateNull t then Format_date (TrDate t) else []),
          t_storage_class = TrStorageClass t\<rparr>]
      else [])"

text \<open>Lines 231 to 240: the prefix and the tags of a filter.\<close>

definition decode_filter :: "Filter \<Rightarrow> string \<times> (string \<times> string) list" where
  "decode_filter f =
     (if 0 < length (AndTags (And f))
      then (AndPrefix (And f),
            foldl (\<lambda>tags tag. AList.update (Key tag) (Value tag) tags) [] (AndTags (And f)))
      else (Prefix f, []))"

text \<open>Lines 197 to 251: the map \<^verbatim>\<open>rule\<close> that one pass of the loop appends.\<close>

definition decode_rule :: "Rule \<Rightarrow> rule_data" where
  "decode_rule r =
     \<lparr>r_id = ID r,
      r_expiration = decode_expiration (RuleExpiration r),
      r_transition = decode_transition (RuleTransition r),
      r_noncurrent_version_expiration_days =
        (if NoncurrentVersionExpiration_NoncurrentDays r \<noteq> 0
         then NoncurrentVersionExpiration_NoncurrentDays r else 0),
      r_noncurrent_version_transition_days =
        (if NoncurrentVersionTransition_NoncurrentDays r \<noteq> 0
         then NoncurrentVersionTransition_NoncurrentDays r else 0),
      r_status = Status r,
      r_filter = fst (decode_filter (RuleFilter r)),
      r_tags = snd (decode_filter (RuleFilter r))\<rparr>"

subsection \<open>The store client and the resource data\<close>

text \<open>
  The store is a collaborator: any pair of functions over a store state \<open>'s\<close>. A call
  returns its result and the state it leaves; an error is its message.
\<close>

record 's S3Client =
  SetBucketLifecycle :: "string \<Rightarrow> Configuration \<Rightarrow> 's \<Rightarrow> string option \<times> 's"
  GetBucketLifecycle :: "string \<Rightarrow> 's \<Rightarrow> (string + Configuration) \<times> 's"

text \<open>
  \<^verbatim>\<open>*schema.ResourceData\<close>: the identity (\<^verbatim>\<open>d.Id()\<close>, empty when the resource is
  absent), the two attributes as \<^verbatim>\<open>d.Get\<close> returns them, what \<^verbatim>\<open>d.HasChange("rule")\<close>
  answers (the SDK compares the prior state with the plan; \<^verbatim>\<open>d.Set\<close> does not
  change the answer), and the error that \<^verbatim>\<open>d.Set\<close> would return for a key
  (\<open>None\<close>: the value is stored).
\<close>

record ResourceData =
  d_Id :: string
  d_bucket :: string
  d_rule :: "rule_data list"
  HasChange_rule :: bool
  Set_error :: "string \<Rightarrow> string option"

subsection \<open>The four operations\<close>

text \<open>
  Each returns its diagnostics, the resource data and the store as it leaves them. The
  line that \<^verbatim>\<open>minioReadILMPolicy\<close> writes to the log on a failed read is not part of the
  model.
\<close>

definition minioReadILMPolicy ::
  "'s S3Client \<Rightarrow> ResourceData \<Rightarrow> 's \<Rightarrow> Diagnostics \<times> ResourceData \<times> 's" where
  "minioReadILMPolicy c d s =
     (case GetBucketLifecycle c (d_Id d) s of
        (Inl err, s') \<Rightarrow> ([], d\<lparr>d_Id := []\<rparr>, s')
      | (Inr config, s') \<Rightarrow>
          (case Set_error d ''bucket'' of
             Some err \<Rightarrow> (NewResourceError ''setting bucket failed'' (d_Id d) err, d, s')
           | None \<Rightarrow>
               (let d1 = d\<lparr>d_bucket := d_Id d\<rparr>;
                    rules = map decode_rule (Rules config)
                in case Set_error d1 ''rule'' of
                     Some err \<Rightarrow>
                       (NewResourceError ''reading lifecycle configuration failed'' (d_Id d1) err,
                        d1, s')
                   | None \<Rightarrow> ([], d1\<lparr>d_rule := rules\<rparr>, s'))))"

definition minioCreateILMPolicy ::
  "'s S3Client \<Rightarrow> ResourceData \<Rightarrow> 's \<Rightarrow> Diagnostics \<times> ResourceData \<times> 's" where
  "minioCreateILMPolicy c d s =
     (let bucket = d_bucket d;
          config = NewConfiguration\<lparr>Rules := map build_rule (d_rule d)\<rparr>
      in case SetBucketLifecycle c bucket config s of
           (Some err, s') \<Rightarrow>
             (NewResourceError ''creating bucket lifecycle failed'' bucket err, d, s')
         | (None, s') \<Rightarrow> minioReadILMPolicy c (d\<lparr>d_Id := bucket\<rparr>) s')"

text \<open>
  Line 265 calls \<^verbatim>\<open>minioCreateILMPolicy\<close> as a statement: what it returns is dropped,
  what it did to \<^verbatim>\<open>d\<close> and to the store stays.
\<close>

definition minioUpdateILMPolicy ::
  "'s S3Client \<Rightarrow> ResourceData \<Rightarrow> 's \<Rightarrow> Diagnostics \<times> ResourceData \<times> 's" where
  "minioUpdateILMPolicy c d s =
     (if HasChange_rule d
      then (case minioCreateILMPolicy c d s of (_, d', s') \<Rightarrow> minioReadILMPolicy c d' s')
      else minioReadILMPolicy c d s)"

definition minioDeleteILMPolicy ::
  "'s S3Client \<Rightarrow> ResourceData \<Rightarrow> 's \<Rightarrow> Diagnostics \<times> ResourceData \<times> 's" where
  "minioDeleteILMPolicy c d s =
     (let config = NewConfiguration
      in case SetBucketLifecycle c (d_Id d) config s of
           (Some err, s') \<Rightarrow>
             (NewResourceError ''deleting lifecycle configuration failed'' (d_Id d) err, d, s')
         | (None, s') \<Rightarrow> ([], d\<lparr>d_Id := []\<rparr>, s'))"

subsection \<open>Two stores to run the operations on\<close>

text \<open>
  A store in memory, a list of buckets with their configurations: \<open>memory_store\<close> takes
  every write and answers a read of a bucket it does not hold with an error;
  \<open>read_only_store\<close> answers reads the same way and refuses every write.
\<close>

definition memory_store :: "((string \<times> Configuration) list) S3Client" where
  "memory_store =
     \<lparr>SetBucketLifecycle = (\<lambda>bucket config s. (None, AList.update bucket config s)),
      GetBucketLifecycle = (\<lambda>bucket s.
        (case map_of s bucket of
           None \<Rightarrow> Inl ''NoSuchLifecycleConfiguration''
         | Some config \<Rightarrow> Inr config, s))\<rparr>"

definition read_only_store :: "((string \<times> Configuration) list) S3Client" where
  "read_only_store =
     \<lparr>SetBucketLifecycle = (\<lambda>bucket config s. (Some ''AccessDenied'', s)),
      GetBucketLifecycle = (\<lambda>bucket s.
        (case map_of s bucket of
           None \<Rightarrow> Inl ''NoSuchLifecycleConfiguration''
         | Some config \<Rightarrow> Inr config, s))\<rparr>"

subsection \<open>The three shapes of an expiration string\<close>

text \<open>
  The shapes that the schema's description and the validator's message name, as sets of
  whole strings: a duration \<^verbatim>\<open><integer>d\<close> (an optional sign, one or more decimal
  digits, the letter \<^verbatim>\<open>d\<close>), a date \<^verbatim>\<open>YYYY-MM-DD\<close> (digits and two hyphens; whether
  the day exists is not part of the shape), and the literal \<^verbatim>\<open>DeleteMarker\<close>. They follow
  the wording of the documentation, not the parsers.
\<close>

definition spec_duration_shape :: "string \<Rightarrow> bool" where
  "spec_duration_shape s =
     (case s of
        [] \<Rightarrow> False
      | c # cs \<Rightarrow>
          let body = (if c = CHR ''+'' \<or> c = CHR ''-'' then cs else s)
          in 2 \<le> length body \<and> list_all isDigit (butlast body) \<and> last body = CHR ''d'')"

definition spec_date_shape :: "string \<Rightarrow> bool" where
  "spec_date_shape s =
     (length s = 10 \<and> list_all isDigit (take 4 s) \<and> s ! 4 = CHR ''-''
      \<and> list_all isDigit (take 2 (drop 5 s)) \<and> s ! 7 = CHR ''-''
      \<and> list_all isDigit (drop 8 s))"

definition spec_accepted_shape :: "string \<Rightarrow> bool" where
  "spec_accepted_shape s =
     (s = ''DeleteMarker'' \<or> spec_duration_shape s \<or> spec_date_shape s)"

subsection \<open>Concrete inputs\<close>

text \<open>
  The two rules of the end-to-end scenarios, and the resource data of a bucket \<^verbatim>\<open>b1\<close>
  that holds the first of them with a change planned.
\<close>

definition r1_input :: rule_data where
  "r1_input =
     \<lparr>r_id = ''r1'', r_expiration = ''5d'', r_transition = [],
      r_noncurrent_version_expiration_days = 0, r_noncurrent_version_transition_days = 0,
      r_status = [], r_filter = ''tmp/'', r_tags = []\<rparr>"

definition r2_input :: rule_data where
  "r2_input =
     \<lparr>r_id = ''r2'', r_expiration = ''DeleteMarker'', r_transition = [],
      r_noncurrent_version_expiration_days = 30, r_noncurrent_version_transition_days = 0,
      r_status = [], r_filter = [], r_tags = [(''k'', ''v'')]\<rparr>"

definition b1_data :: ResourceData where
  "b1_data =
     \<lparr>d_Id = ''b1'', d_bucket = ''b1'', d_rule = [r1_input], HasChange_rule = True,
      Set_error = (\<lambda>key. None)\<rparr>"

section \<open>Properties\<close>

subsection \<open>Evaluation and the decimal round trip\<close>

lemmas scan_defs = Sscanf_dd_def scanInt_def SkipSpace.simps space_width_def ParseInt_def
  isDigit_def decimal_value_def digit_value_def

lemmas date_defs = Parse_date_def getnum_def daysIn_def isLeap_def

lemma digit_value_char_of: "k < 10 \<Longrightarrow> digit_value (char_of (48 + k)) = k"
  by (simp add: digit_value_def)

lemma isDigit_char_of: "(k::nat) < 10 \<Longrightarrow> isDigit (char_of (48 + k))"
  by (simp add: isDigit_def)

lemma digits_of_all_digits: "list_all isDigit (digits_of n)"
proof (induction n rule: digits_of.induct)
  case (1 n)
  show ?case
  proof (cases "n < 10")
    case True
    then show ?thesis by (simp add: digits_of.simps [of n] isDigit_char_of)
  next
    case False
    then show ?thesis using 1 by (simp add: digits_of.simps [of n] isDigit_char_of)
  qed
qed

lemma digits_of_not_Nil: "digits_of n \<noteq> []"
  by (simp add: digits_of.simps [of n])

lemma decimal_value_snoc: "decimal_value (ds @ [c]) = 10 * decimal_value ds + digit_value c"
  by (simp add: decimal_value_def)

lemma decimal_value_digits_of: "decimal_value (digits_of n) = n"
proof (induction n rule: digits_of.induct)
  case (1 n)
  show ?case
  proof (cases "n < 10")
    case True
    then show ?thesis
      by (simp add: digits_of.simps [of n] decimal_value_def digit_value_char_of)
  next
    case False
    then have "decimal_value (digits_of n) = 10 * (n div 10) + n mod 10"
      using 1 by (simp add: digits_of.simps [of n] decimal_value_snoc digit_value_char_of)
    then show ?thesis by simp
  qed
qed

lemma space_width_digit: "isDigit c \<Longrightarrow> space_width (c # cs) = 0"
  by (simp add: space_width_def isDigit_def)

lemma SkipSpace_digit:
  assumes "isDigit c"
  shows "SkipSpace (c # cs) = Some (c # cs)"
proof -
  have "c \<noteq> CHR 0x0A" using assms by (auto simp: isDigit_def)
  then show ?thesis using assms by (simp add: SkipSpace.simps [of "c # cs"] space_width_digit)
qed

lemma not_isDigit_d: "\<not> isDigit (CHR ''d'')"
  by (simp add: isDigit_def)

lemma takeWhile_digits_of: "takeWhile isDigit (digits_of n @ CHR ''d'' # r) = digits_of n"
  using digits_of_all_digits [of n]
  by (simp add: list_all_iff not_isDigit_d)

lemma dropWhile_digits_of: "dropWhile isDigit (digits_of n @ CHR ''d'' # r) = CHR ''d'' # r"
  using digits_of_all_digits [of n]
  by (simp add: list_all_iff not_isDigit_d)

lemma scanInt_digits_of:
  assumes "int n < 2 ^ 63"
  shows "scanInt (digits_of n @ CHR ''d'' # r) = Some (int n, CHR ''d'' # r)"
proof -
  obtain c cs where ds: "digits_of n = c # cs"
    using digits_of_not_Nil [of n] by (cases "digits_of n") auto
  have c: "isDigit c" using digits_of_all_digits [of n] ds by simp
  then have nosign: "c \<noteq> CHR ''+''" "c \<noteq> CHR ''-''" by (auto simp: isDigit_def)
  have skip: "SkipSpace (digits_of n @ CHR ''d'' # r) = Some (c # cs @ CHR ''d'' # r)"
    using SkipSpace_digit [OF c] ds by simp
  have tw: "takeWhile isDigit (c # cs @ CHR ''d'' # r) = digits_of n"
    using takeWhile_digits_of [of n r] ds by simp
  have dw: "dropWhile isDigit (c # cs @ CHR ''d'' # r) = CHR ''d'' # r"
    using dropWhile_digits_of [of n r] ds by simp
  have pi: "ParseInt [] (digits_of n) = Some (int n)"
    using assms by (simp add: ParseInt_def decimal_value_digits_of)
  show ?thesis
    unfolding scanInt_def skip
    using nosign tw dw pi digits_of_not_Nil [of n] by (simp del: takeWhile.simps dropWhile.simps)
qed

lemma Sscanf_dd_Sprintf_dd:
  assumes "0 \<le> i" "i < 2 ^ 63"
  shows "Sscanf_dd (Sprintf_dd i @ r) = Some i"
proof -
  have "int (nat i) < 2 ^ 63" using assms by simp
  from scanInt_digits_of [OF this, of r] assms show ?thesis
    by (simp add: Sscanf_dd_def Sprintf_dd_def Sprintf_d_def)
qed

lemma Sprintf_dd_not_DeleteMarker: "0 \<le> i \<Longrightarrow> Sprintf_dd i \<noteq> ''DeleteMarker''"
proof
  assume i: "0 \<le> i" and eq: "Sprintf_dd i = ''DeleteMarker''"
  obtain c cs where ds: "digits_of (nat i) = c # cs"
    using digits_of_not_Nil [of "nat i"] by (cases "digits_of (nat i)") auto
  have c: "isDigit c" using digits_of_all_digits [of "nat i"] ds by simp
  from eq i ds have "c = CHR ''D''" by (simp add: Sprintf_dd_def Sprintf_d_def)
  with c show False by (simp add: isDigit_def)
qed

lemma Sprintf_dd_5: "Sprintf_dd 5 = ''5d''"
  by (simp add: Sprintf_dd_def Sprintf_d_def digits_of.simps char_of_eq_iff)

lemma Sprintf_dd_0: "Sprintf_dd 0 = ''0d''"
  by (simp add: Sprintf_dd_def Sprintf_d_def digits_of.simps char_of_eq_iff)

lemma Sprintf_dd_2_63: "Sprintf_dd 9223372036854775808 = ''9223372036854775808d''"
  by (simp add: Sprintf_dd_def Sprintf_d_def digits_of.simps char_of_eq_iff)

lemma parse_0d: "parseILMExpiration ''0d'' = Expiration_zero"
  by (simp add: parseILMExpiration_def scan_defs Expiration_zero_def)

lemma parse_2_63: "parseILMExpiration ''9223372036854775808d'' = Expiration_zero"
  by (simp add: parseILMExpiration_def scan_defs Parse_date_def getnum_def)

lemma decode_expiration_zero: "decode_expiration Expiration_zero = []"
  by (simp add: decode_expiration_def Expiration_zero_def Expiration_IsNull_def IsZero_def)

lemma Sscanf_dd_5days: "Sscanf_dd ''5days'' = Some 5"
  by (simp add: scan_defs)

lemma Sscanf_dd_30days: "Sscanf_dd ''30days'' = Some 30"
  by (simp add: scan_defs)

lemma Parse_date_leap_day:
  "Parse_date ''2024-02-29'' = Some \<lparr>year = 2024, month = 2, day = 29\<rparr>"
  by (simp add: date_defs isDigit_def decimal_value_def digit_value_def)

lemma Parse_date_empty: "Parse_date [] = None"
  by (simp add: Parse_date_def)

subsection \<open>The expiration codec\<close>

text \<open>
  C1, as amended. For every integer \<open>n\<close> from 1 to \<open>2^63 - 1\<close>, the largest \<^verbatim>\<open>int\<close>:
  \<^verbatim>\<open>parseILMExpiration\<close> of the string \<^verbatim>\<open><n>d\<close> is the expiration of \<open>n\<close> days and
  nothing else, and the read side prints that expiration as \<^verbatim>\<open><n>d\<close> again.
\<close>

theorem expiration_days_roundtrip:
  assumes "1 \<le> n" "n < 2 ^ 63"
  shows "parseILMExpiration (Sprintf_dd n) = Expiration_zero\<lparr>ExpDays := n\<rparr>
       \<and> decode_expiration (parseILMExpiration (Sprintf_dd n)) = Sprintf_dd n"
proof -
  have "Sscanf_dd (Sprintf_dd n) = Some n"
    using Sscanf_dd_Sprintf_dd [of n "[]"] assms by simp
  then have p: "parseILMExpiration (Sprintf_dd n) = Expiration_zero\<lparr>ExpDays := n\<rparr>"
    using Sprintf_dd_not_DeleteMarker [of n] assms by (simp add: parseILMExpiration_def)
  have "decode_expiration (Expiration_zero\<lparr>ExpDays := n\<rparr>) = Sprintf_dd n"
    using assms by (simp add: decode_expiration_def Expiration_zero_def)
  with p show ?thesis by simp
qed

theorem expiration_days_roundtrip_witness:
  "(1::int) \<le> 5 \<and> (5::int) < 2 ^ 63 \<and> Sprintf_dd 5 = ''5d''
   \<and> parseILMExpiration ''5d'' = Expiration_zero\<lparr>ExpDays := 5\<rparr>
   \<and> decode_expiration (parseILMExpiration ''5d'') = ''5d''"
proof -
  have h1: "(1::int) \<le> 5" and h2: "(5::int) < 2 ^ 63" by simp_all
  from expiration_days_roundtrip [OF h1 h2]
  have "parseILMExpiration ''5d'' = Expiration_zero\<lparr>ExpDays := 5\<rparr>"
    and "decode_expiration (parseILMExpiration ''5d'') = ''5d''"
    unfolding Sprintf_dd_5 by blast+
  with h1 h2 Sprintf_dd_5 show ?thesis by blast
qed

text \<open>
  C1 as stated, for every \<open>n \<ge> 0\<close>, fails at both ends. \<^verbatim>\<open>0d\<close> parses to zero days,
  which is the empty expiration, and the read side prints the empty string for it. And
  \<^verbatim>\<open>9223372036854775808d\<close>, one past the largest \<^verbatim>\<open>int\<close>, is a range error of the
  scanner, so the string parses to the empty expiration, not to that number of days.
\<close>

theorem expiration_days_roundtrip_counterexample:
  "(0::int) \<le> 0
   \<and> decode_expiration (parseILMExpiration (Sprintf_dd 0)) \<noteq> Sprintf_dd 0
   \<and> (0::int) \<le> 9223372036854775808
   \<and> parseILMExpiration (Sprintf_dd 9223372036854775808)
       \<noteq> Expiration_zero\<lparr>ExpDays := 9223372036854775808\<rparr>"
proof -
  have "decode_expiration (parseILMExpiration (Sprintf_dd 0)) = []"
    by (simp only: Sprintf_dd_0 parse_0d decode_expiration_zero)
  then have a: "decode_expiration (parseILMExpiration (Sprintf_dd 0)) \<noteq> Sprintf_dd 0"
    by (simp add: Sprintf_dd_0)
  have "parseILMExpiration (Sprintf_dd 9223372036854775808) = Expiration_zero"
    by (simp only: Sprintf_dd_2_63 parse_2_63)
  then have b: "parseILMExpiration (Sprintf_dd 9223372036854775808)
      \<noteq> Expiration_zero\<lparr>ExpDays := 9223372036854775808\<rparr>"
    by (simp add: Expiration_zero_def)
  from a b show ?thesis by simp
qed

text \<open>
  C10. The string \<^verbatim>\<open>0d\<close> has the duration shape, yet \<^verbatim>\<open>parseILMExpiration\<close> maps it
  to zero days, which is the empty expiration field for field, so
  \<^verbatim>\<open>validateILMExpiration\<close> rejects it with the format error.
\<close>

theorem zero_days_rejected:
  "spec_duration_shape ''0d''
   \<and> spec_accepted_shape ''0d''
   \<and> parseILMExpiration ''0d'' = Expiration_zero\<lparr>ExpDays := 0\<rparr>
   \<and> Expiration_zero\<lparr>ExpDays := 0\<rparr> = Expiration_zero
   \<and> validateILMExpiration ''0d'' = [Errorf expiration_format_error]"
proof -
  have a: "spec_duration_shape ''0d''"
    by (simp add: spec_duration_shape_def isDigit_def)
  have b: "Expiration_zero\<lparr>ExpDays := 0\<rparr> = Expiration_zero"
    by (simp add: Expiration_zero_def)
  have c: "validateILMExpiration ''0d'' = [Errorf expiration_format_error]"
    by (simp add: validateILMExpiration_def parse_0d)
  from a b c parse_0d show ?thesis by (simp add: spec_accepted_shape_def)
qed

text \<open>
  C4 says that every string outside the three shapes parses to the empty expiration and
  is rejected by \<^verbatim>\<open>validateILMExpiration\<close>. The string \<^verbatim>\<open>5days\<close> has none of the three
  shapes, but \<^verbatim>\<open>Sscanf\<close> stops reading after the \<^verbatim>\<open>d\<close>: the string parses to five days
  and the validator returns no diagnostic.
\<close>

theorem trailing_text_accepted:
  "\<not> spec_accepted_shape ''5days''
   \<and> parseILMExpiration ''5days'' = Expiration_zero\<lparr>ExpDays := 5\<rparr>
   \<and> parseILMExpiration ''5days'' \<noteq> Expiration_zero
   \<and> validateILMExpiration ''5days'' = []"
proof -
  have a: "\<not> spec_accepted_shape ''5days''"
    by (simp add: spec_accepted_shape_def spec_duration_shape_def spec_date_shape_def isDigit_def)
  have b: "parseILMExpiration ''5days'' = Expiration_zero\<lparr>ExpDays := 5\<rparr>"
    by (simp add: parseILMExpiration_def Sscanf_dd_5days)
  have c: "Expiration_zero\<lparr>ExpDays := 5\<rparr> \<noteq> Expiration_zero"
    by (simp add: Expiration_zero_def)
  have d: "validateILMExpiration ''5days'' = []"
    using c by (simp add: validateILMExpiration_def b)
  from a b c d show ?thesis by simp
qed

text \<open>
  X2. The literal \<^verbatim>\<open>DeleteMarker\<close> parses to the delete-marker expiration, passes the
  validator, and the read side prints it as \<^verbatim>\<open>DeleteMarker\<close> again.
\<close>

theorem delete_marker_roundtrip:
  "parseILMExpiration ''DeleteMarker'' = Expiration_zero\<lparr>ExpDeleteMarker := True\<rparr>
   \<and> validateILMExpiration ''DeleteMarker'' = []
   \<and> decode_expiration (parseILMExpiration ''DeleteMarker'') = ''DeleteMarker''"
  by (simp add: parseILMExpiration_def validateILMExpiration_def decode_expiration_def
      Expiration_zero_def)

text \<open>
  X3. The date \<^verbatim>\<open>0001-01-01\<close> has the date shape and \<^verbatim>\<open>time.Parse\<close> accepts it, but
  the time it denotes is the zero \<^verbatim>\<open>time.Time\<close>: the string parses to the empty
  expiration and \<^verbatim>\<open>validateILMExpiration\<close> rejects it with the format error.
\<close>

theorem year_one_date_rejected:
  "spec_date_shape ''0001-01-01''
   \<and> Parse_date ''0001-01-01'' = Some Time_zero
   \<and> parseILMExpiration ''0001-01-01'' = Expiration_zero
   \<and> validateILMExpiration ''0001-01-01'' = [Errorf expiration_format_error]"
proof -
  have a: "spec_date_shape ''0001-01-01''"
    by (simp add: spec_date_shape_def isDigit_def)
  have b: "Parse_date ''0001-01-01'' = Some Time_zero"
    by (simp add: date_defs isDigit_def decimal_value_def digit_value_def Time_zero_def)
  have c: "Sscanf_dd ''0001-01-01'' = None"
    by (simp add: scan_defs)
  have d: "parseILMExpiration ''0001-01-01'' = Expiration_zero"
    by (simp add: parseILMExpiration_def b c Expiration_zero_def)
  from a b d show ?thesis
    by (simp add: validateILMExpiration_def)
qed

subsection \<open>The filter codec\<close>

text \<open>
  C6, as amended. A filter whose AND part has an empty tag list decodes to the filter's
  own prefix \<open>q\<close> and no tags, whatever prefix \<open>p\<close> the AND part carries: the same as
  the simple filter with prefix \<open>q\<close>.
\<close>

theorem decode_filter_without_tags:
  "decode_filter \<lparr>And = \<lparr>AndPrefix = p, AndTags = []\<rparr>, Prefix = q\<rparr> = (q, [])
   \<and> decode_filter \<lparr>And = \<lparr>AndPrefix = p, AndTags = []\<rparr>, Prefix = q\<rparr>
       = decode_filter (Filter_zero\<lparr>Prefix := q\<rparr>)"
  by (simp add: decode_filter_def Filter_zero_def)

text \<open>
  C6 as stated fails: the AND part with prefix \<^verbatim>\<open>logs/\<close> and no tags decodes to the
  empty prefix, the simple filter with prefix \<^verbatim>\<open>logs/\<close> to \<^verbatim>\<open>logs/\<close>.
\<close>

theorem decode_compound_without_tags_counterexample:
  "decode_filter \<lparr>And = \<lparr>AndPrefix = ''logs/'', AndTags = []\<rparr>, Prefix = []\<rparr> = ([], [])
   \<and> decode_filter (Filter_zero\<lparr>Prefix := ''logs/''\<rparr>) = (''logs/'', [])
   \<and> decode_filter \<lparr>And = \<lparr>AndPrefix = ''logs/'', AndTags = []\<rparr>, Prefix = []\<rparr>
       \<noteq> decode_filter (Filter_zero\<lparr>Prefix := ''logs/''\<rparr>)"
  by (simp add: decode_filter_def Filter_zero_def)

lemma update_fresh: "k \<notin> fst ` set al \<Longrightarrow> AList.update k v al = al @ [(k, v)]"
  by (induction al) auto

lemma copy_loop_distinct:
  "distinct (map fst (acc @ m)) \<Longrightarrow>
   foldl (\<lambda>tags (k, v). AList.update k v tags) acc m = acc @ m"
proof (induction m arbitrary: acc)
  case Nil
  then show ?case by simp
next
  case (Cons kv m)
  obtain k v where kv: "kv = (k, v)" by (cases kv)
  from Cons.prems kv have fresh: "k \<notin> fst ` set acc" by auto
  from Cons.prems kv have "distinct (map fst ((acc @ [(k, v)]) @ m))" by simp
  from Cons.IH [OF this] show ?case by (simp add: kv update_fresh [OF fresh])
qed

lemma copy_tags_distinct: "distinct (map fst m) \<Longrightarrow> copy_tags m = m"
  using copy_loop_distinct [of "[]" m] by (simp add: copy_tags_def)

lemma copy_tags_Nil_iff: "copy_tags m = [] \<longleftrightarrow> m = []"
proof
  assume "copy_tags m = []"
  show "m = []"
  proof (rule ccontr)
    assume "m \<noteq> []"
    then obtain k v m' where m: "m = (k, v) # m'" by (cases m) auto
    have "\<And>acc. acc \<noteq> [] \<Longrightarrow> foldl (\<lambda>tags (k, v). AList.update k v tags) acc m' \<noteq> []"
    proof (induction m')
      case Nil
      then show ?case by simp
    next
      case (Cons a m')
      obtain k' v' where a: "a = (k', v')" by (cases a)
      have "AList.update k' v' acc \<noteq> []" using Cons.prems by (cases acc) auto
      from Cons.IH [OF this] show ?case by (simp add: a)
    qed
    from this [of "[(k, v)]"] have "copy_tags m \<noteq> []" by (simp add: copy_tags_def m)
    with \<open>copy_tags m = []\<close> show False by simp
  qed
next
  assume "m = []" then show "copy_tags m = []" by (simp add: copy_tags_def)
qed

lemma RuleFilter_build_rule:
  "RuleFilter (build_rule rule) = build_filter (r_filter rule) (copy_tags (r_tags rule))"
  by (simp add: build_rule_def Let_def)

text \<open>
  C7. The tags of a rule are a Go map, so their keys are distinct; the order of the list
  is any order of iteration. If the tags are not empty the filter of the built rule is the
  AND filter with the rule's prefix (empty or not) and one tag per entry, key and value
  copied, and its simple prefix is empty; if the tags are empty it is the simple filter
  with the rule's prefix and an empty AND part. So the AND part holds tags exactly when
  the rule has tags.
\<close>

theorem filter_encoding_by_tags:
  assumes "distinct (map fst (r_tags rule))"
  shows "(r_tags rule \<noteq> [] \<longrightarrow>
            RuleFilter (build_rule rule)
              = \<lparr>And = \<lparr>AndPrefix = r_filter rule,
                        AndTags = map (\<lambda>(k, v). \<lparr>Key = k, Value = v\<rparr>) (r_tags rule)\<rparr>,
                 Prefix = []\<rparr>)
       \<and> (r_tags rule = [] \<longrightarrow>
            RuleFilter (build_rule rule)
              = \<lparr>And = \<lparr>AndPrefix = [], AndTags = []\<rparr>, Prefix = r_filter rule\<rparr>)
       \<and> (AndTags (And (RuleFilter (build_rule rule))) \<noteq> [] \<longleftrightarrow> r_tags rule \<noteq> [])"
proof -
  have f: "RuleFilter (build_rule rule) = build_filter (r_filter rule) (r_tags rule)"
    by (simp add: RuleFilter_build_rule copy_tags_distinct [OF assms])
  show ?thesis
    unfolding f by (simp add: build_filter_def Filter_zero_def)
qed

theorem filter_encoding_by_tags_witness:
  "distinct (map fst (r_tags r2_input)) \<and> r_tags r2_input \<noteq> []
   \<and> RuleFilter (build_rule r2_input)
       = \<lparr>And = \<lparr>AndPrefix = [], AndTags = [\<lparr>Key = ''k'', Value = ''v''\<rparr>]\<rparr>, Prefix = []\<rparr>
   \<and> distinct (map fst (r_tags r1_input)) \<and> r_tags r1_input = []
   \<and> RuleFilter (build_rule r1_input)
       = \<lparr>And = \<lparr>AndPrefix = [], AndTags = []\<rparr>, Prefix = ''tmp/''\<rparr>"
proof -
  have h2: "distinct (map fst (r_tags r2_input))" by (simp add: r2_input_def)
  have h1: "distinct (map fst (r_tags r1_input))" by (simp add: r1_input_def)
  have n2: "r_tags r2_input \<noteq> []" by (simp add: r2_input_def)
  have n1: "r_tags r1_input = []" by (simp add: r1_input_def)
  have a: "RuleFilter (build_rule r2_input)
       = \<lparr>And = \<lparr>AndPrefix = [], AndTags = [\<lparr>Key = ''k'', Value = ''v''\<rparr>]\<rparr>, Prefix = []\<rparr>"
    using filter_encoding_by_tags [OF h2] n2 by (simp add: r2_input_def)
  have b: "RuleFilter (build_rule r1_input)
       = \<lparr>And = \<lparr>AndPrefix = [], AndTags = []\<rparr>, Prefix = ''tmp/''\<rparr>"
    using filter_encoding_by_tags [OF h1] n1 by (simp add: r1_input_def)
  from h2 n2 a h1 n1 b show ?thesis by blast
qed

subsection \<open>The transition codec\<close>

text \<open>
  The control flow of \<^verbatim>\<open>parseILMTransition\<close>, in terms of what \<^verbatim>\<open>Sscanf\<close> and
  \<^verbatim>\<open>time.Parse\<close> answer: the empty list gives the empty transition; for a descriptor the
  days are scanned first and the date is parsed only when that scan fails; when both fail
  the result is the empty transition. The scan accepts more than the duration token
  \<^verbatim>\<open><integer>d\<close>, so this is not yet a statement about duration tokens.
\<close>

lemma parseILMTransition_by_scanner:
  "parseILMTransition [] = Transition_zero
   \<and> parseILMTransition (t # ts)
       = (case Sscanf_dd (t_days t) of
            Some n \<Rightarrow> \<lparr>TrDate = Time_zero, TrStorageClass = t_storage_class t, TrDays = n\<rparr>
          | None \<Rightarrow>
              (case Parse_date (t_date t) of
                 Some date \<Rightarrow>
                   \<lparr>TrDate = date, TrStorageClass = t_storage_class t, TrDays = 0\<rparr>
               | None \<Rightarrow> Transition_zero))"
  by (simp add: parseILMTransition_def Transition_zero_def split: option.splits)

text \<open>
  C8 says that the days of a descriptor are tried as a duration token first, the date
  only when that fails, and that the result is the empty transition when neither field
  parses. The string \<^verbatim>\<open>30days\<close> is no duration token, but \<^verbatim>\<open>Sscanf\<close> at line 307 stops
  reading after the \<^verbatim>\<open>d\<close>, as it does at line 290. So a descriptor with the days
  \<^verbatim>\<open>30days\<close> and the date \<^verbatim>\<open>2024-02-29\<close>, which parses, becomes thirty days and the date
  is never tried; and a descriptor with the days \<^verbatim>\<open>30days\<close> and no date, where neither
  field has its shape, becomes thirty days too, not the empty transition.
\<close>

theorem transition_trailing_text_accepted:
  "\<not> spec_duration_shape ''30days''
   \<and> Parse_date ''2024-02-29'' = Some \<lparr>year = 2024, month = 2, day = 29\<rparr>
   \<and> parseILMTransition
         [\<lparr>t_days = ''30days'', t_date = ''2024-02-29'', t_storage_class = ''COLD''\<rparr>]
       = \<lparr>TrDate = Time_zero, TrStorageClass = ''COLD'', TrDays = 30\<rparr>
   \<and> Parse_date [] = None
   \<and> parseILMTransition [\<lparr>t_days = ''30days'', t_date = [], t_storage_class = ''COLD''\<rparr>]
       = \<lparr>TrDate = Time_zero, TrStorageClass = ''COLD'', TrDays = 30\<rparr>
   \<and> parseILMTransition [\<lparr>t_days = ''30days'', t_date = [], t_storage_class = ''COLD''\<rparr>]
       \<noteq> Transition_zero"
proof -
  have a: "\<not> spec_duration_shape ''30days''"
    by (simp add: spec_duration_shape_def isDigit_def)
  have b: "parseILMTransition
         [\<lparr>t_days = ''30days'', t_date = ''2024-02-29'', t_storage_class = ''COLD''\<rparr>]
       = \<lparr>TrDate = Time_zero, TrStorageClass = ''COLD'', TrDays = 30\<rparr>"
    by (simp add: parseILMTransition_def Sscanf_dd_30days Transition_zero_def)
  have c: "parseILMTransition [\<lparr>t_days = ''30days'', t_date = [], t_storage_class = ''COLD''\<rparr>]
       = \<lparr>TrDate = Time_zero, TrStorageClass = ''COLD'', TrDays = 30\<rparr>"
    by (simp add: parseILMTransition_def Sscanf_dd_30days Transition_zero_def)
  have d: "\<lparr>TrDate = Time_zero, TrStorageClass = ''COLD'', TrDays = 30\<rparr> \<noteq> Transition_zero"
    by (simp add: Transition_zero_def)
  from a b c d Parse_date_leap_day Parse_date_empty show ?thesis
    by simp
qed

subsection \<open>The operations\<close>

text \<open>
  C2. When the store's get-lifecycle call fails, \<^verbatim>\<open>minioReadILMPolicy\<close> returns no
  diagnostic, the identity is empty, and nothing else of the resource data has changed:
  in particular the rule attribute holds what it held.
\<close>

theorem read_error_clears_identity:
  assumes "fst (GetBucketLifecycle c (d_Id d) s) = Inl err"
  shows "minioReadILMPolicy c d s = ([], d\<lparr>d_Id := []\<rparr>, snd (GetBucketLifecycle c (d_Id d) s))
       \<and> d_rule (fst (snd (minioReadILMPolicy c d s))) = d_rule d"
  using assms by (cases "GetBucketLifecycle c (d_Id d) s") (simp add: minioReadILMPolicy_def)

theorem read_error_clears_identity_witness:
  "fst (GetBucketLifecycle memory_store (d_Id b1_data) []) = Inl ''NoSuchLifecycleConfiguration''
   \<and> minioReadILMPolicy memory_store b1_data [] = ([], b1_data\<lparr>d_Id := []\<rparr>, [])
   \<and> d_rule (fst (snd (minioReadILMPolicy memory_store b1_data []))) = [r1_input]"
proof -
  have h: "fst (GetBucketLifecycle memory_store (d_Id b1_data) [])
      = Inl ''NoSuchLifecycleConfiguration''"
    by (simp add: memory_store_def)
  have s: "snd (GetBucketLifecycle memory_store (d_Id b1_data) []) = []"
    by (simp add: memory_store_def)
  have r: "d_rule b1_data = [r1_input]"
    by (simp add: b1_data_def)
  from read_error_clears_identity [OF h] s r h show ?thesis by simp
qed

text \<open>
  C5. \<^verbatim>\<open>minioDeleteILMPolicy\<close> writes the empty configuration under the identity (which
  is the bucket name). If the write succeeds the identity is cleared and there is no
  diagnostic; if it fails with \<open>err\<close> the result is the resource error tagged with the
  identity, and the resource data is unchanged.
\<close>

theorem delete_clears_identity_on_success_only:
  "(fst (SetBucketLifecycle c (d_Id d) NewConfiguration s) = None \<longrightarrow>
      minioDeleteILMPolicy c d s
        = ([], d\<lparr>d_Id := []\<rparr>, snd (SetBucketLifecycle c (d_Id d) NewConfiguration s)))
   \<and> (\<forall>err. fst (SetBucketLifecycle c (d_Id d) NewConfiguration s) = Some err \<longrightarrow>
      minioDeleteILMPolicy c d s
        = ([ResourceError ''deleting lifecycle configuration failed'' (d_Id d) err], d,
           snd (SetBucketLifecycle c (d_Id d) NewConfiguration s)))"
  by (cases "SetBucketLifecycle c (d_Id d) NewConfiguration s")
     (auto simp: minioDeleteILMPolicy_def NewResourceError_def)

theorem delete_clears_identity_on_success_only_witness:
  "fst (SetBucketLifecycle memory_store (d_Id b1_data) NewConfiguration []) = None
   \<and> minioDeleteILMPolicy memory_store b1_data []
       = ([], b1_data\<lparr>d_Id := []\<rparr>, [(''b1'', NewConfiguration)])
   \<and> fst (SetBucketLifecycle read_only_store (d_Id b1_data) NewConfiguration [])
       = Some ''AccessDenied''
   \<and> minioDeleteILMPolicy read_only_store b1_data []
       = ([ResourceError ''deleting lifecycle configuration failed'' ''b1'' ''AccessDenied''],
          b1_data, [])"
proof -
  have h1: "fst (SetBucketLifecycle memory_store (d_Id b1_data) NewConfiguration []) = None"
    by (simp add: memory_store_def)
  have s1: "snd (SetBucketLifecycle memory_store (d_Id b1_data) NewConfiguration [])
      = [(''b1'', NewConfiguration)]"
    by (simp add: memory_store_def b1_data_def)
  have h2: "fst (SetBucketLifecycle read_only_store (d_Id b1_data) NewConfiguration [])
      = Some ''AccessDenied''"
    by (simp add: read_only_store_def)
  have s2: "snd (SetBucketLifecycle read_only_store (d_Id b1_data) NewConfiguration []) = []"
    by (simp add: read_only_store_def)
  have i: "d_Id b1_data = ''b1''" by (simp add: b1_data_def)
  have r1: "minioDeleteILMPolicy memory_store b1_data []
       = ([], b1_data\<lparr>d_Id := []\<rparr>, [(''b1'', NewConfiguration)])"
    using delete_clears_identity_on_success_only [of memory_store b1_data "[]"] h1 s1
    by simp
  have r2: "minioDeleteILMPolicy read_only_store b1_data []
       = ([ResourceError ''deleting lifecycle configuration failed'' ''b1'' ''AccessDenied''],
          b1_data, [])"
    using delete_clears_identity_on_success_only [of read_only_store b1_data "[]"] h2 s2 i
    by simp
  from h1 r1 h2 r2 show ?thesis by blast
qed

text \<open>
  X1. Every update ends with a read: of the resource data and the store as the create
  left them when the rules have changed, of the given ones otherwise.
\<close>

theorem update_finishes_with_read:
  "minioUpdateILMPolicy c d s
     = (if HasChange_rule d
        then minioReadILMPolicy c (fst (snd (minioCreateILMPolicy c d s)))
               (snd (snd (minioCreateILMPolicy c d s)))
        else minioReadILMPolicy c d s)"
  by (simp add: minioUpdateILMPolicy_def split: prod.splits)

text \<open>
  C3 says that an update with changed rules behaves as the create does, the store error
  of a failed write included. Here the rules of \<^verbatim>\<open>b1\<close> have changed and the store
  refuses the write: \<^verbatim>\<open>minioCreateILMPolicy\<close> returns the resource error tagged with the
  bucket, while \<^verbatim>\<open>minioUpdateILMPolicy\<close>, which drops what the create returns and reads,
  returns no diagnostic and leaves the store's old, empty rule list as the rule attribute.
\<close>

theorem update_drops_store_error:
  "HasChange_rule b1_data
   \<and> minioCreateILMPolicy read_only_store b1_data [(''b1'', NewConfiguration)]
       = ([ResourceError ''creating bucket lifecycle failed'' ''b1'' ''AccessDenied''],
          b1_data, [(''b1'', NewConfiguration)])
   \<and> minioUpdateILMPolicy read_only_store b1_data [(''b1'', NewConfiguration)]
       = ([], b1_data\<lparr>d_rule := []\<rparr>, [(''b1'', NewConfiguration)])"
proof -
  have a: "HasChange_rule b1_data"
    by (simp add: b1_data_def)
  have b: "minioCreateILMPolicy read_only_store b1_data [(''b1'', NewConfiguration)]
       = ([ResourceError ''creating bucket lifecycle failed'' ''b1'' ''AccessDenied''],
          b1_data, [(''b1'', NewConfiguration)])"
    by (simp add: minioCreateILMPolicy_def read_only_store_def NewResourceError_def
        b1_data_def)
  have c: "minioReadILMPolicy read_only_store b1_data [(''b1'', NewConfiguration)]
       = ([], b1_data\<lparr>d_rule := []\<rparr>, [(''b1'', NewConfiguration)])"
    by (simp add: minioReadILMPolicy_def read_only_store_def NewConfiguration_def
        b1_data_def)
  from a b c show ?thesis
    by (simp add: minioUpdateILMPolicy_def)
qed

subsection \<open>End to end\<close>

lemma parse_5d: "parseILMExpiration ''5d'' = Expiration_zero\<lparr>ExpDays := 5\<rparr>"
  by (simp add: parseILMExpiration_def scan_defs)

lemma decode_5_days: "decode_expiration (Expiration_zero\<lparr>ExpDays := 5\<rparr>) = ''5d''"
  by (simp add: decode_expiration_def Expiration_zero_def Sprintf_dd_5)

lemma build_rule_r1:
  "build_rule r1_input
     = \<lparr>ID = ''r1'',
        RuleExpiration = Expiration_zero\<lparr>ExpDays := 5\<rparr>,
        RuleTransition = Transition_zero,
        NoncurrentVersionExpiration_NoncurrentDays = 0,
        NoncurrentVersionTransition_NoncurrentDays = 0,
        Status = ''Enabled'',
        RuleFilter = Filter_zero\<lparr>Prefix := ''tmp/''\<rparr>\<rparr>"
  by (simp add: build_rule_def r1_input_def parse_5d parseILMTransition_def copy_tags_def
      build_filter_def)

lemma decode_rule_r1:
  "decode_rule
     \<lparr>ID = ''r1'',
      RuleExpiration = Expiration_zero\<lparr>ExpDays := 5\<rparr>,
      RuleTransition = Transition_zero,
      NoncurrentVersionExpiration_NoncurrentDays = 0,
      NoncurrentVersionTransition_NoncurrentDays = 0,
      Status = ''Enabled'',
      RuleFilter = Filter_zero\<lparr>Prefix := ''tmp/''\<rparr>\<rparr>
     = \<lparr>r_id = ''r1'', r_expiration = ''5d'', r_transition = [],
        r_noncurrent_version_expiration_days = 0, r_noncurrent_version_transition_days = 0,
        r_status = ''Enabled'', r_filter = ''tmp/'', r_tags = []\<rparr>"
  by (simp add: decode_rule_def decode_5_days decode_transition_def Transition_IsNull_def
      Transition_zero_def decode_filter_def Filter_zero_def)

text \<open>
  C9. The rule \<^verbatim>\<open>r1\<close> (expiration \<^verbatim>\<open>5d\<close>, prefix \<^verbatim>\<open>tmp/\<close>, no tags, nothing else set)
  is built into the store rule with five days of expiration, the simple filter with
  prefix \<^verbatim>\<open>tmp/\<close> and the status \<^verbatim>\<open>Enabled\<close>, and that store rule decodes to the rule
  with expiration \<^verbatim>\<open>5d\<close>, no transition, both noncurrent-version counts 0, the status
  \<^verbatim>\<open>Enabled\<close>, the prefix \<^verbatim>\<open>tmp/\<close> and no tags. Creating the policy on a store in
  memory leaves that decoded rule as the rule attribute and no diagnostic.
\<close>

theorem end_to_end_r1:
  "RuleExpiration (build_rule r1_input)
     = \<lparr>ExpDate = Time_zero, ExpDays = 5, ExpDeleteMarker = False\<rparr>
   \<and> RuleFilter (build_rule r1_input)
       = \<lparr>And = \<lparr>AndPrefix = [], AndTags = []\<rparr>, Prefix = ''tmp/''\<rparr>
   \<and> Status (build_rule r1_input) = ''Enabled''
   \<and> decode_rule (build_rule r1_input)
       = \<lparr>r_id = ''r1'', r_expiration = ''5d'', r_transition = [],
          r_noncurrent_version_expiration_days = 0, r_noncurrent_version_transition_days = 0,
          r_status = ''Enabled'', r_filter = ''tmp/'', r_tags = []\<rparr>
   \<and> minioCreateILMPolicy memory_store (b1_data\<lparr>d_Id := []\<rparr>) []
       = ([],
          b1_data\<lparr>d_rule :=
            [\<lparr>r_id = ''r1'', r_expiration = ''5d'', r_transition = [],
              r_noncurrent_version_expiration_days = 0,
              r_noncurrent_version_transition_days = 0,
              r_status = ''Enabled'', r_filter = ''tmp/'', r_tags = []\<rparr>]\<rparr>,
          [(''b1'', \<lparr>Rules = [build_rule r1_input]\<rparr>)])"
proof -
  have a: "RuleExpiration (build_rule r1_input)
      = \<lparr>ExpDate = Time_zero, ExpDays = 5, ExpDeleteMarker = False\<rparr>"
    by (simp add: build_rule_r1 Expiration_zero_def)
  have b: "RuleFilter (build_rule r1_input)
      = \<lparr>And = \<lparr>AndPrefix = [], AndTags = []\<rparr>, Prefix = ''tmp/''\<rparr>"
    by (simp add: build_rule_r1 Filter_zero_def)
  have c: "Status (build_rule r1_input) = ''Enabled''"
    by (simp add: build_rule_r1)
  have d: "decode_rule (build_rule r1_input)
      = \<lparr>r_id = ''r1'', r_expiration = ''5d'', r_transition = [],
         r_noncurrent_version_expiration_days = 0, r_noncurrent_version_transition_days = 0,
         r_status = ''Enabled'', r_filter = ''tmp/'', r_tags = []\<rparr>"
    by (simp only: build_rule_r1 decode_rule_r1)
  have e: "minioCreateILMPolicy memory_store (b1_data\<lparr>d_Id := []\<rparr>) []
      = ([], b1_data\<lparr>d_rule := [decode_rule (build_rule r1_input)]\<rparr>,
         [(''b1'', \<lparr>Rules = [build_rule r1_input]\<rparr>)])"
    by (simp add: minioCreateILMPolicy_def minioReadILMPolicy_def memory_store_def
        NewConfiguration_def b1_data_def Let_def)
  from a b c d e show ?thesis by simp
qed

end
